theory Spec2Isabelle
  imports Main "HOL-Library.Word"
begin

unbundle bit_operations_syntax

section \<open>Go values\<close>

text \<open>
  A Go \<^verbatim>\<open>byte\<close> is an 8-bit word. A Go \<^verbatim>\<open>int\<close> (and \<^verbatim>\<open>int64\<close>) is a
  64-bit word read as a signed number with \<^term>\<open>sint\<close>; \<^verbatim>\<open>len(xs)\<close> is
  \<^term>\<open>int (length xs)\<close>. A Go \<^verbatim>\<open>string\<close> is a list of 8-bit characters.
\<close>

type_synonym byte = "8 word"
type_synonym go_int = "64 word"

text \<open>
  The builtin \<^verbatim>\<open>copy(dst, src)\<close> on a fixed-size destination: it overwrites the first
  \<^verbatim>\<open>min(len(dst), len(src))\<close> elements of \<^verbatim>\<open>dst\<close> and leaves the rest. A longer
  source is cut, a shorter one leaves the tail of the destination (zeroes, for a fresh array).
\<close>

definition go_copy :: "'a list \<Rightarrow> 'a list \<Rightarrow> 'a list" where
  "go_copy dst src = take (length dst) src @ drop (length src) dst"

definition zero_array :: "nat \<Rightarrow> byte list" where
  "zero_array n = replicate n 0"

subsection \<open>strconv.Itoa and the \<^verbatim>\<open>%d\<close> verb\<close>

definition digit_char :: "nat \<Rightarrow> char" where
  "digit_char d = char_of (48 + d)"

function nat_dec :: "nat \<Rightarrow> string" where
  "nat_dec n = (if n < 10 then [digit_char n] else nat_dec (n div 10) @ [digit_char (n mod 10)])"
  by pat_completeness auto
termination
  by (relation "measure id") auto

declare nat_dec.simps [simp del]

definition Itoa :: "int \<Rightarrow> string" where
  "Itoa i = (if i < 0 then CHR ''-'' # nat_dec (nat (- i)) else nat_dec (nat i))"

subsection \<open>encoding/hex\<close>

definition hextable :: string where
  "hextable = ''0123456789abcdef''"

text \<open>\<^verbatim>\<open>hex.EncodeToString\<close>; the \<^verbatim>\<open>%x\<close> verb on a byte slice prints the same text.\<close>

fun hex_EncodeToString :: "byte list \<Rightarrow> string" where
  "hex_EncodeToString [] = []"
| "hex_EncodeToString (v # vs) =
     hextable ! unat (drop_bit 4 v) # hextable ! unat (v AND 15) # hex_EncodeToString vs"

definition fromHexChar :: "char \<Rightarrow> byte option" where
  "fromHexChar c =
     (let n = (of_char c :: nat) in
      if 48 \<le> n \<and> n \<le> 57 then Some (of_nat (n - 48))
      else if 97 \<le> n \<and> n \<le> 102 then Some (of_nat (n - 97 + 10))
      else if 65 \<le> n \<and> n \<le> 70 then Some (of_nat (n - 65 + 10))
      else None)"

datatype hex_error = ErrLength | InvalidByteError char

text \<open>
  \<^verbatim>\<open>hex.DecodeString\<close> returns the bytes decoded before the error together with the
  error (\<open>None\<close> is Go's \<^verbatim>\<open>nil\<close>). It reads two characters at a time; an odd last
  character is an invalid byte when it is no hex digit and a length error otherwise.
\<close>

fun hex_DecodeString :: "string \<Rightarrow> byte list \<times> hex_error option" where
  "hex_DecodeString [] = ([], None)"
| "hex_DecodeString [p] =
     (case fromHexChar p of
        None \<Rightarrow> ([], Some (InvalidByteError p))
      | Some a \<Rightarrow> ([], Some ErrLength))"
| "hex_DecodeString (p # q # rest) =
     (case fromHexChar p of
        None \<Rightarrow> ([], Some (InvalidByteError p))
      | Some a \<Rightarrow>
          (case fromHexChar q of
             None \<Rightarrow> ([], Some (InvalidByteError q))
           | Some b \<Rightarrow>
               (case hex_DecodeString rest of
                  (bs, err) \<Rightarrow> ((push_bit 4 a OR b) # bs, err))))"

subsection \<open>encoding/base64, the standard padded encoding\<close>

definition encodeStd :: string where
  "encodeStd = ''ABCDEFGHIJKLMNOPQRSTUVWXYZabcdefghijklmnopqrstuvwxyz0123456789+/''"

definition padChar :: char where
  "padChar = CHR ''=''"

fun base64_EncodeToString :: "byte list \<Rightarrow> string" where
  "base64_EncodeToString [] = []"
| "base64_EncodeToString [a] =
     (let val = unat a * 65536 in
      [encodeStd ! (val div 262144 mod 64), encodeStd ! (val div 4096 mod 64), padChar, padChar])"
| "base64_EncodeToString [a, b] =
     (let val = unat a * 65536 + unat b * 256 in
      [encodeStd ! (val div 262144 mod 64), encodeStd ! (val div 4096 mod 64),
       encodeStd ! (val div 64 mod 64), padChar])"
| "base64_EncodeToString (a # b # c # rest) =
     (let val = unat a * 65536 + unat b * 256 + unat c in
      encodeStd ! (val div 262144 mod 64) # encodeStd ! (val div 4096 mod 64) #
      encodeStd ! (val div 64 mod 64) # encodeStd ! (val mod 64) # base64_EncodeToString rest)"

text \<open>The decode map: the position of a character in the alphabet, if it has one.\<close>

definition decodeMap :: "char \<Rightarrow> nat option" where
  "decodeMap c =
     (let n = (of_char c :: nat) in
      if 65 \<le> n \<and> n \<le> 90 then Some (n - 65)
      else if 97 \<le> n \<and> n \<le> 122 then Some (n - 71)
      else if 48 \<le> n \<and> n \<le> 57 then Some (n + 4)
      else if n = 43 then Some 62
      else if n = 47 then Some 63
      else None)"

text \<open>
  \<^verbatim>\<open>CorruptInputError\<close> carries the offset of the offending byte in Go; no caller in
  this program reads it, and it is left out here.
\<close>

datatype base64_error = CorruptInputError

text \<open>
  The decoder works on quanta of four characters. A quantum may end in \<^verbatim>\<open>==\<close> (one
  byte) or \<^verbatim>\<open>=\<close> (two bytes) only at the end of the input; an input that stops inside a
  quantum is corrupt. The encoding is not strict: the unused low bits of a padded quantum
  are not checked.
\<close>

fun decodeQuanta :: "string \<Rightarrow> base64_error + byte list" where
  "decodeQuanta [] = Inr []"
| "decodeQuanta (c0 # c1 # c2 # c3 # rest) =
     (case (decodeMap c0, decodeMap c1) of
        (Some a, Some b) \<Rightarrow>
          (case decodeMap c2 of
             None \<Rightarrow>
               if c2 = padChar \<and> c3 = padChar \<and> rest = []
               then Inr [of_nat ((a * 262144 + b * 4096) div 65536)]
               else Inl CorruptInputError
           | Some c \<Rightarrow>
               (case decodeMap c3 of
                  None \<Rightarrow>
                    if c3 = padChar \<and> rest = []
                    then (let val = a * 262144 + b * 4096 + c * 64 in
                          Inr [of_nat (val div 65536), of_nat (val div 256)])
                    else Inl CorruptInputError
                | Some d \<Rightarrow>
                    (let val = a * 262144 + b * 4096 + c * 64 + d in
                     case decodeQuanta rest of
                       Inl e \<Rightarrow> Inl e
                     | Inr bs \<Rightarrow>
                         Inr (of_nat (val div 65536) # of_nat (val div 256) # of_nat val # bs))))
      | _ \<Rightarrow> Inl CorruptInputError)"
| "decodeQuanta _ = Inl CorruptInputError"

text \<open>Carriage returns and line feeds are skipped wherever they stand.\<close>

definition base64_DecodeString :: "string \<Rightarrow> base64_error + byte list" where
  "base64_DecodeString s =
     decodeQuanta (filter (\<lambda>c. c \<noteq> CHR 0x0A \<and> c \<noteq> CHR 0x0D) s)"

section \<open>The event and the cryptographic library\<close>

text \<open>
  \<^verbatim>\<open>nostr.Event\<close> of go-nostr. \<^verbatim>\<open>performMusig\<close> receives a pointer to the caller's
  event; the model takes the event and returns it as it stands when the function returns.
\<close>

record event =
  ID :: string
  PubKey :: string
  CreatedAt :: go_int
  Kind :: go_int
  Tags :: "string list list"
  Content :: string
  Sig :: string

text \<open>\<^verbatim>\<open>musig2.Nonces\<close>: a 97-byte secret nonce and its 66-byte public nonce.\<close>

record nonces =
  SecNonce :: "byte list"
  PubNonce :: "byte list"

type_synonym lib_error = string

text \<open>
  The curve arithmetic and the MuSig2 contexts and sessions belong to btcec, which is not
  part of this program. Its entry points are parameters of the model: a record of
  functions over the library's own types (\<open>'sk\<close> private keys, \<open>'pk\<close> public keys,
  \<open>'ctx\<close> contexts, \<open>'sess\<close> sessions, \<open>'ps\<close> partial signatures). Every theorem
  about \<open>performMusig\<close> below holds for any such record.

  \<^item> A call that returns an error in Go returns \<open>Inl\<close> of the error's message.
  \<^item> A session is a mutable object in Go; a call that changes it returns the new session.
  \<^item> Nonce generation reads the system's random source; the bytes drawn in this
    invocation are part of the record.
  \<^item> \<open>NewContextEarly\<close> is \<^verbatim>\<open>NewContext\<close> with \<^verbatim>\<open>WithNumSigners\<close> and
    \<^verbatim>\<open>WithEarlyNonceGen\<close>, \<open>NewContextKnown\<close> is \<^verbatim>\<open>NewContext\<close> with
    \<^verbatim>\<open>WithKnownSigners\<close>; \<open>NewSession\<close> takes the pre-generated nonce, if any.
  \<^item> \<open>ScalarBaseMult\<close> is the public key of the scalar read from a byte slice.
  \<^item> \<open>FinalSig\<close> is the serialized final signature, \<open>None\<close> while the session holds
    none (a nil pointer in Go).
  \<^item> \<open>GetID\<close> is the event's identifier (go-nostr), a function of the event's content.
  \<^item> \<^verbatim>\<open>PublicKey.IsEqual\<close> compares the coordinates of two keys: equality on \<open>'pk\<close>.
\<close>

record ('sk, 'pk, 'ctx, 'sess, 'ps) library =
  PrivKeyFromBytes :: "byte list \<Rightarrow> 'sk \<times> 'pk"
  ParsePubKey :: "byte list \<Rightarrow> lib_error + 'pk"
  SerializeCompressed :: "'pk \<Rightarrow> byte list"
  ScalarBaseMult :: "byte list \<Rightarrow> 'pk"
  DecodePartialSig :: "byte list \<Rightarrow> lib_error + 'ps"
  EncodePartialSig :: "'ps \<Rightarrow> byte list"
  NewContextEarly :: "'sk \<Rightarrow> go_int \<Rightarrow> lib_error + 'ctx"
  NewContextKnown :: "'sk \<Rightarrow> 'pk list \<Rightarrow> lib_error + 'ctx"
  EarlySessionNonce :: "'ctx \<Rightarrow> lib_error + nonces"
  CombinedKey :: "'ctx \<Rightarrow> lib_error + 'pk"
  NewSession :: "'ctx \<Rightarrow> nonces option \<Rightarrow> lib_error + 'sess"
  PublicNonce :: "'sess \<Rightarrow> byte list"
  RegisterPubNonce :: "'sess \<Rightarrow> byte list \<Rightarrow> lib_error + bool \<times> 'sess"
  Sign :: "'sess \<Rightarrow> byte list \<Rightarrow> lib_error + 'ps \<times> 'sess"
  CombineSig :: "'sess \<Rightarrow> 'ps \<Rightarrow> lib_error + bool \<times> 'sess"
  FinalSig :: "'sess \<Rightarrow> byte list option"
  GetID :: "event \<Rightarrow> string"

section \<open>The resume command (musig2.go, lines 207 to 299)\<close>

definition quote :: char where
  "quote = CHR 0x27"

definition newline :: char where
  "newline = CHR 0x0A"

text \<open>\<^verbatim>\<open>Tag.Key\<close> of go-nostr: the first item of a tag, the empty string for an empty tag.\<close>

definition Key :: "string list \<Rightarrow> string" where
  "Key tag = (case tag of [] \<Rightarrow> [] | k # _ \<Rightarrow> k)"

definition tagToCliArg :: "string list \<Rightarrow> string" where
  "tagToCliArg tag =
     '' -t '' @ [quote] @ Key tag @
     (if length tag > 1
      then ''='' @ tag ! 1 @
           (if length tag > 2 then concat (map (\<lambda>item. '','' @ item) (drop 2 tag)) else [])
      else []) @
     [quote]"

definition eventToCliArgs :: "event \<Rightarrow> string" where
  "eventToCliArgs evt =
     ''-k '' @ Itoa (sint (Kind evt)) @
     '' -ts '' @ Itoa (sint (CreatedAt evt)) @
     '' -c '' @ [quote] @ Content evt @ [quote] @
     concat (map tagToCliArg (Tags evt))"

definition signersToCliArgs ::
  "('sk, 'pk, 'ctx, 'sess, 'ps) library \<Rightarrow> 'pk list \<Rightarrow> string" where
  "signersToCliArgs L knownSigners =
     concat (map (\<lambda>signerPub.
       '' --musig2-pubkey '' @ hex_EncodeToString (SerializeCompressed L signerPub)) knownSigners)"

definition noncesToCliArgs :: "byte list list \<Rightarrow> string" where
  "noncesToCliArgs knownNonces =
     concat (map (\<lambda>nonce. '' --musig2-nonce '' @ hex_EncodeToString nonce) knownNonces)"

definition partialSigsToCliArgs ::
  "('sk, 'pk, 'ctx, 'sess, 'ps) library \<Rightarrow> 'ps list \<Rightarrow> string" where
  "partialSigsToCliArgs L knownPartialSigs =
     concat (map (\<lambda>partialSig.
       '' --musig2-partial '' @ hex_EncodeToString (EncodePartialSig L partialSig)) knownPartialSigs)"

text \<open>The text that \<^verbatim>\<open>printPublicCommandForNextPeer\<close> writes to the standard error stream.\<close>

definition printPublicCommandForNextPeer ::
  "('sk, 'pk, 'ctx, 'sess, 'ps) library \<Rightarrow> event \<Rightarrow> go_int \<Rightarrow> 'pk list \<Rightarrow> byte list list \<Rightarrow>
   'ps list \<Rightarrow> bool \<Rightarrow> string" where
  "printPublicCommandForNextPeer L evt numSigners knownSigners knownNonces knownPartialSigs
     includeNonceSecret =
     (let maybeNonceSecret =
        (if includeNonceSecret
         then '' --musig2-nonce-secret '' @ [quote] @ ''<their-nonce-secret>'' @ [quote]
         else [])
      in ''the next signer and they should call this on their side:'' @ [newline] @
         ''nak event --sec <their-key> --musig2 '' @ Itoa (sint numSigners) @ '' '' @
         eventToCliArgs evt @
         signersToCliArgs L knownSigners @
         noncesToCliArgs knownNonces @
         partialSigsToCliArgs L knownPartialSigs @
         maybeNonceSecret @ [newline])"

text \<open>
  \<^verbatim>\<open>secNonceToPubNonce\<close> (lines 302 to 329). \<^verbatim>\<open>SetByteSlice\<close> reads at most the first
  32 bytes of the slice it is given, so the second scalar is bytes 32 to 63 of the secret
  nonce. Each compressed point is copied into its half of a 66-byte array.
\<close>

definition secNonceToPubNonce ::
  "('sk, 'pk, 'ctx, 'sess, 'ps) library \<Rightarrow> byte list \<Rightarrow> byte list" where
  "secNonceToPubNonce L secNonce =
     (let r1Pub = ScalarBaseMult L (take 32 secNonce);
          r2Pub = ScalarBaseMult L (take 32 (drop 32 secNonce));
          pubNonce = go_copy (zero_array 66) (SerializeCompressed L r1Pub)
      in take 33 pubNonce @ go_copy (drop 33 pubNonce) (SerializeCompressed L r2Pub))"

section \<open>performMusig (musig2.go, lines 18 to 205)\<close>

text \<open>
  One constructor for each place where \<^verbatim>\<open>performMusig\<close> returns an error, with what the
  message is built from. \<open>NilDereference\<close> is the panic of line 202 when the session has
  no final signature.
\<close>

datatype error =
    HexError hex_error
  | LibError lib_error
  | NonceNot66Bytes string
  | InvalidPartialSignature string lib_error
  | ContextUnknownSigners go_int lib_error
  | ContextKnownSigners nat lib_error
  | CombineKeysFailed nat lib_error
  | SessionLastPeerFailed lib_error
  | MissingNonceSecret
  | InvalidNonceSecret base64_error
  | SessionSecretNonceFailed lib_error
  | RegisterNonceFailed lib_error
  | NoncesMissing
  | PartialSignatureFailed lib_error
  | CombineSignatureFailed lib_error
  | NilDereference

text \<open>
  The loop of lines 37 to 51: the parsed keys in the order given, and whether one of them
  is the local public key.
\<close>

fun parseKeys ::
  "('sk, 'pk, 'ctx, 'sess, 'ps) library \<Rightarrow> 'pk \<Rightarrow> string list \<Rightarrow> error + 'pk list \<times> bool" where
  "parseKeys L pubk [] = Inr ([], False)"
| "parseKeys L pubk (hexpub # rest) =
     (case hex_DecodeString hexpub of
        (bpub, Some err) \<Rightarrow> Inl (HexError err)
      | (bpub, None) \<Rightarrow>
          (case ParsePubKey L bpub of
             Inl err \<Rightarrow> Inl (LibError err)
           | Inr spub \<Rightarrow>
               (case parseKeys L pubk rest of
                  Inl err \<Rightarrow> Inl err
                | Inr (knownSigners, includesUs) \<Rightarrow>
                    Inr (spub # knownSigners, spub = pubk \<or> includesUs))))"

text \<open>The loop of lines 57 to 68.\<close>

fun parseNonces :: "string list \<Rightarrow> error + byte list list" where
  "parseNonces [] = Inr []"
| "parseNonces (hexnonce # rest) =
     (case hex_DecodeString hexnonce of
        (bnonce, Some err) \<Rightarrow> Inl (HexError err)
      | (bnonce, None) \<Rightarrow>
          if length bnonce \<noteq> 66 then Inl (NonceNot66Bytes hexnonce)
          else (case parseNonces rest of
                  Inl err \<Rightarrow> Inl err
                | Inr knownNonces \<Rightarrow> Inr (go_copy (zero_array 66) bnonce # knownNonces)))"

text \<open>The loop of lines 71 to 81.\<close>

fun parsePartialSigs ::
  "('sk, 'pk, 'ctx, 'sess, 'ps) library \<Rightarrow> string list \<Rightarrow> error + 'ps list" where
  "parsePartialSigs L [] = Inr []"
| "parsePartialSigs L (hexps # rest) =
     (case hex_DecodeString hexps of
        (bps, Some err) \<Rightarrow> Inl (HexError err)
      | (bps, None) \<Rightarrow>
          (case DecodePartialSig L bps of
             Inl err \<Rightarrow> Inl (InvalidPartialSignature hexps err)
           | Inr ps \<Rightarrow>
               (case parsePartialSigs L rest of
                  Inl err \<Rightarrow> Inl err
                | Inr knownPartialSigs \<Rightarrow> Inr (ps # knownPartialSigs))))"

text \<open>
  The signer set of lines 35 to 54: the parsed keys, and the local public key at the end
  when none of them is equal to it.
\<close>

definition signerSet ::
  "('sk, 'pk, 'ctx, 'sess, 'ps) library \<Rightarrow> 'pk \<Rightarrow> string list \<Rightarrow> error + 'pk list" where
  "signerSet L pubk keys =
     (case parseKeys L pubk keys of
        Inl err \<Rightarrow> Inl err
      | Inr (knownSigners, includesUs) \<Rightarrow>
          Inr (if \<not> includesUs then knownSigners @ [pubk] else knownSigners))"

text \<open>Lines 28 to 81, ``preprocess data received'': everything decoded, or the first error.\<close>

definition preprocess ::
  "('sk, 'pk, 'ctx, 'sess, 'ps) library \<Rightarrow> string \<Rightarrow> string list \<Rightarrow> string list \<Rightarrow> string list \<Rightarrow>
   error + 'sk \<times> 'pk \<times> 'pk list \<times> byte list list \<times> 'ps list" where
  "preprocess L sec keys nonces partialSigs =
     (case hex_DecodeString sec of
        (secb, Some err) \<Rightarrow> Inl (HexError err)
      | (secb, None) \<Rightarrow>
          (case PrivKeyFromBytes L secb of
             (seck, pubk) \<Rightarrow>
               (case signerSet L pubk keys of
                  Inl err \<Rightarrow> Inl err
                | Inr knownSigners \<Rightarrow>
                    (case parseNonces nonces of
                       Inl err \<Rightarrow> Inl err
                     | Inr knownNonces \<Rightarrow>
                         (case parsePartialSigs L partialSigs of
                            Inl err \<Rightarrow> Inl err
                          | Inr knownPartialSigs \<Rightarrow>
                              Inr (seck, pubk, knownSigners, knownNonces, knownPartialSigs))))))"

text \<open>
  Lines 128 to 157: the session, and the known nonces with the local one added by the
  signer whose key was the last to join.
\<close>

definition openSession ::
  "('sk, 'pk, 'ctx, 'sess, 'ps) library \<Rightarrow> 'ctx \<Rightarrow> go_int \<Rightarrow> string list \<Rightarrow> byte list list \<Rightarrow>
   string \<Rightarrow> error + 'sess \<times> byte list list" where
  "openSession L mctx numSigners keys knownNonces secNonce =
     (if int (length keys) = sint (numSigners - 1) then
        (case NewSession L mctx None of
           Inl err \<Rightarrow> Inl (SessionLastPeerFailed err)
         | Inr session \<Rightarrow> Inr (session, knownNonces @ [PublicNonce L session]))
      else if secNonce = [] then Inl MissingNonceSecret
      else
        (case base64_DecodeString secNonce of
           Inl err \<Rightarrow> Inl (InvalidNonceSecret err)
         | Inr secNonceB \<Rightarrow>
             (let secNonce97 = go_copy (zero_array 97) secNonceB in
              case NewSession L mctx
                     (Some \<lparr>SecNonce = secNonce97, PubNonce = secNonceToPubNonce L secNonce97\<rparr>) of
                Inl err \<Rightarrow> Inl (SessionSecretNonceFailed err)
              | Inr session \<Rightarrow> Inr (session, knownNonces))))"

text \<open>
  The loop of lines 159 to 170, from a session and the value of \<^verbatim>\<open>noncesOk\<close> so far:
  a nonce equal to the session's own is skipped, every other one is registered.
\<close>

fun registerNonces ::
  "('sk, 'pk, 'ctx, 'sess, 'ps) library \<Rightarrow> 'sess \<Rightarrow> bool \<Rightarrow> byte list list \<Rightarrow>
   lib_error + bool \<times> 'sess" where
  "registerNonces L session noncesOk [] = Inr (noncesOk, session)"
| "registerNonces L session noncesOk (b66nonce # rest) =
     (if b66nonce = PublicNonce L session then registerNonces L session noncesOk rest
      else (case RegisterPubNonce L session b66nonce of
              Inl err \<Rightarrow> Inl err
            | Inr (ok, session') \<Rightarrow> registerNonces L session' ok rest))"

text \<open>The loop of lines 193 to 198.\<close>

fun combineSigs ::
  "('sk, 'pk, 'ctx, 'sess, 'ps) library \<Rightarrow> 'sess \<Rightarrow> 'ps list \<Rightarrow> lib_error + 'sess" where
  "combineSigs L session [] = Inr session"
| "combineSigs L session (ps # rest) =
     (case CombineSig L session ps of
        Inl err \<Rightarrow> Inl err
      | Inr (_, session') \<Rightarrow> combineSigs L session' rest)"

text \<open>
  The result of an invocation: the error or the flag \<^verbatim>\<open>signed\<close>, the caller's event as
  the invocation leaves it, and the texts written to the standard error stream, one for
  each \<^verbatim>\<open>Fprintf\<close>, in order.
\<close>

type_synonym outcome = "(error + bool) \<times> event \<times> string list"

text \<open>Lines 175 to 204, ``signing phase'', from a session that holds all nonces.\<close>

definition signingPhase ::
  "('sk, 'pk, 'ctx, 'sess, 'ps) library \<Rightarrow> event \<Rightarrow> go_int \<Rightarrow> 'pk list \<Rightarrow> byte list list \<Rightarrow>
   'ps list \<Rightarrow> 'sess \<Rightarrow> string list \<Rightarrow> outcome" where
  "signingPhase L evt numSigners knownSigners knownNonces knownPartialSigs session out =
     (let id = GetID L evt;
          hash = fst (hex_DecodeString id);
          msg32 = go_copy (zero_array 32) hash
      in case Sign L session msg32 of
           Inl err \<Rightarrow> (Inl (PartialSignatureFailed err), evt, out)
         | Inr (partialSig, session') \<Rightarrow>
             if int (length knownPartialSigs) + 1 < int (length knownSigners) then
               (Inr False, evt,
                out @ [printPublicCommandForNextPeer L evt numSigners knownSigners knownNonces
                         (knownPartialSigs @ [partialSig]) True])
             else
               (case combineSigs L session' knownPartialSigs of
                  Inl err \<Rightarrow> (Inl (CombineSignatureFailed err), evt, out)
                | Inr session'' \<Rightarrow>
                    (case FinalSig L session'' of
                       None \<Rightarrow> (Inl NilDereference, evt, out)
                     | Some sig \<Rightarrow> (Inr True, evt\<lparr>Sig := hex_EncodeToString sig\<rparr>, out))))"

definition secretNotice :: string where
  "secretNotice =
     ''the following code should be saved secretly until the next step an included with --musig2-nonce-secret:''
     @ [newline]"

text \<open>Lines 106 to 119: the signers are not all known.\<close>

definition keyGathering ::
  "('sk, 'pk, 'ctx, 'sess, 'ps) library \<Rightarrow> event \<Rightarrow> go_int \<Rightarrow> 'sk \<Rightarrow> 'pk list \<Rightarrow>
   byte list list \<Rightarrow> outcome" where
  "keyGathering L evt numSigners seck knownSigners knownNonces =
     (case NewContextEarly L seck numSigners of
        Inl err \<Rightarrow> (Inl (ContextUnknownSigners numSigners err), evt, [])
      | Inr mctx \<Rightarrow>
          (case EarlySessionNonce L mctx of
             Inl err \<Rightarrow> (Inl (LibError err), evt, [])
           | Inr nonce \<Rightarrow>
               (Inr False, evt,
                [secretNotice,
                 base64_EncodeToString (SecNonce nonce) @ [newline, newline],
                 printPublicCommandForNextPeer L evt numSigners knownSigners
                   (knownNonces @ [PubNonce nonce]) [] False])))"

definition combinedKeyLine ::
  "('sk, 'pk, 'ctx, 'sess, 'ps) library \<Rightarrow> 'pk \<Rightarrow> string" where
  "combinedKeyLine L comb =
     ''combined key: '' @ hex_EncodeToString (SerializeCompressed L comb) @ [newline, newline]"

text \<open>Lines 95 to 173 and on: the signers are all known.\<close>

definition allSignersKnown ::
  "('sk, 'pk, 'ctx, 'sess, 'ps) library \<Rightarrow> event \<Rightarrow> go_int \<Rightarrow> string list \<Rightarrow> string \<Rightarrow> 'sk \<Rightarrow>
   'pk list \<Rightarrow> byte list list \<Rightarrow> 'ps list \<Rightarrow> outcome" where
  "allSignersKnown L evt numSigners keys secNonce seck knownSigners knownNonces knownPartialSigs =
     (case NewContextKnown L seck knownSigners of
        Inl err \<Rightarrow> (Inl (ContextKnownSigners (length knownSigners) err), evt, [])
      | Inr mctx \<Rightarrow>
          (case CombinedKey L mctx of
             Inl err \<Rightarrow> (Inl (CombineKeysFailed (length knownSigners) err), evt, [])
           | Inr comb \<Rightarrow>
               (let out = [combinedKeyLine L comb] in
                case openSession L mctx numSigners keys knownNonces secNonce of
                  Inl err \<Rightarrow> (Inl err, evt, out)
                | Inr (session, knownNonces') \<Rightarrow>
                    (case registerNonces L session False knownNonces' of
                       Inl err \<Rightarrow> (Inl (RegisterNonceFailed err), evt, out)
                     | Inr (noncesOk, session') \<Rightarrow>
                         if \<not> noncesOk then (Inl NoncesMissing, evt, out)
                         else signingPhase L evt numSigners knownSigners knownNonces'
                                knownPartialSigs session' out))))"

definition performMusig ::
  "('sk, 'pk, 'ctx, 'sess, 'ps) library \<Rightarrow> string \<Rightarrow> event \<Rightarrow> go_int \<Rightarrow> string list \<Rightarrow>
   string list \<Rightarrow> string \<Rightarrow> string list \<Rightarrow> outcome" where
  "performMusig L sec evt numSigners keys nonces secNonce partialSigs =
     (case preprocess L sec keys nonces partialSigs of
        Inl err \<Rightarrow> (Inl err, evt, [])
      | Inr (seck, pubk, knownSigners, knownNonces, knownPartialSigs) \<Rightarrow>
          if int (length knownSigners) < sint numSigners
          then keyGathering L evt numSigners seck knownSigners knownNonces
          else allSignersKnown L evt numSigners keys secNonce seck knownSigners knownNonces
                 knownPartialSigs)"

section \<open>The publish\_note tool (mcp.go, lines 29 to 100)\<close>

text \<open>
  The arguments of a tool call are a map from names to values; \<^verbatim>\<open>required[string]\<close> and
  \<^verbatim>\<open>optional[string]\<close> (lines 208 to 235) read a string and give the empty string when
  the argument is missing or is not a string.
\<close>

datatype arg = StringArg string | OtherArg

type_synonym request = "string \<Rightarrow> arg option"

definition required :: "request \<Rightarrow> string \<Rightarrow> string" where
  "required r p = (case r p of Some (StringArg v) \<Rightarrow> v | _ \<Rightarrow> [])"

definition optional :: "request \<Rightarrow> string \<Rightarrow> string \<times> bool" where
  "optional r p = (case r p of Some (StringArg v) \<Rightarrow> (v, True) | _ \<Rightarrow> ([], False))"

datatype tool_result = ToolResultText string | ToolResultError string

record publish_result =
  RelayURL :: string
  Error :: "lib_error option"

text \<open>
  What the handler reads from outside the program: the process environment, the clock, the
  relay lookups of the SDK, event signing of go-nostr (the event after \<^verbatim>\<open>evt.Sign(sk)\<close>,
  whose error the handler drops) and the results of publishing, in the order they arrive.
\<close>

record system =
  Getenv :: "string \<Rightarrow> string"
  IsValidPublicKey :: "string \<Rightarrow> bool"
  Now :: go_int
  FetchInboxRelays :: "string \<Rightarrow> nat \<Rightarrow> string list"
  FetchOutboxRelays :: "string \<Rightarrow> nat \<Rightarrow> string list"
  EventSign :: "event \<Rightarrow> string \<Rightarrow> event"
  PublishMany :: "string list \<Rightarrow> event \<Rightarrow> publish_result list"

definition fallbackKey :: string where
  "fallbackKey = ''0000000000000000000000000000000000000000000000000000000000000001''"

definition publishLine :: "publish_result \<Rightarrow> string" where
  "publishLine res =
     (if Error res \<noteq> None
      then ''there was an error publishing the event to the relay '' @ RelayURL res @ ''. ''
      else ''the event was successfully published to the relay '' @ RelayURL res @ ''. '')"

text \<open>
  The handler returns the tool result; the second component is what it handed to
  \<^verbatim>\<open>PublishMany\<close> (the relays and the signed event), \<open>None\<close> when it returned before.
\<close>

definition publish_note :: "system \<Rightarrow> request \<Rightarrow> tool_result \<times> (string list \<times> event) option" where
  "publish_note E r =
     (let content = required r ''content'';
          mention = fst (optional r ''mention'');
          relay = fst (optional r ''relay'')
      in if mention \<noteq> [] \<and> \<not> IsValidPublicKey E mention then
           (ToolResultError
              ''the given mention isn't a valid public key, it must be 32 bytes hex, like the ones returned by search_profile'',
            None)
         else
           (let sk0 = Getenv E ''NOSTR_SECRET_KEY'';
                sk = (if sk0 = [] then fallbackKey else sk0);
                evt0 = \<lparr>ID = [], PubKey = [], CreatedAt = Now E, Kind = 1,
                        Tags = [[''client'', ''goose/nak'']], Content = content, Sig = []\<rparr>;
                evt1 = (if mention \<noteq> [] then evt0\<lparr>Tags := Tags evt0 @ [[''p'', mention]]\<rparr> else evt0);
                relays0 = (if mention \<noteq> [] then FetchInboxRelays E mention 3 else []);
                evt = EventSign E evt1 sk;
                relays1 = relays0 @ FetchOutboxRelays E (PubKey evt) 3;
                relays2 = (if length relays1 = 0 then [''nos.lol'', ''relay.damus.io''] else relays1);
                relays = (if relay \<noteq> [] then relays2 @ [relay] else relays2);
                result =
                  ''the event we generated has id '' @ [quote] @ ID evt @ [quote] @
                  '', kind '' @ [quote] @ Itoa (sint (Kind evt)) @ [quote] @
                  '' and is signed by pubkey '' @ [quote] @ PubKey evt @ [quote] @ ''. ''
            in (ToolResultText (result @ concat (map publishLine (PublishMany E relays evt))),
                Some (relays, evt))))"

section \<open>A sample library, for running the model\<close>

text \<open>
  An instance of the library record with which \<open>performMusig\<close> can be run on concrete
  inputs. Its sessions keep count the way the sessions of btcec do: a session is complete
  with as many public nonces, and as many partial signatures, as the context has signers,
  and refuses one more. Keys, nonces and signatures are placeholder byte strings of the
  right lengths; there is no curve arithmetic in it. The theorems about \<open>performMusig\<close>
  are proved for every library; only their instances at concrete inputs use this one.
\<close>

record sample_session =
  signers :: nat
  localNonces :: nonces
  pubNonces :: "byte list list"
  sigs :: "byte list list"
  finalSig :: "byte list option"

definition sample_pub :: "byte list \<Rightarrow> byte list" where
  "sample_pub k = 2 # go_copy (zero_array 32) k"

definition sample_nonces :: "byte list \<Rightarrow> nonces" where
  "sample_nonces k =
     \<lparr>SecNonce = go_copy (zero_array 97) (k @ k), PubNonce = sample_pub k @ sample_pub k\<rparr>"

definition sample_NewSession ::
  "nat \<times> byte list \<Rightarrow> nonces option \<Rightarrow> lib_error + sample_session" where
  "sample_NewSession c pre =
     (let own = (case pre of None \<Rightarrow> sample_nonces (snd c) | Some n \<Rightarrow> n)
      in Inr \<lparr>signers = fst c, localNonces = own, pubNonces = [PubNonce own], sigs = [],
              finalSig = None\<rparr>)"

definition sample_RegisterPubNonce ::
  "sample_session \<Rightarrow> byte list \<Rightarrow> lib_error + bool \<times> sample_session" where
  "sample_RegisterPubNonce s n =
     (if length (pubNonces s) = signers s then Inl ''already have all nonces''
      else Inr (length (pubNonces s) + 1 = signers s, s\<lparr>pubNonces := pubNonces s @ [n]\<rparr>))"

definition sample_Sign ::
  "sample_session \<Rightarrow> byte list \<Rightarrow> lib_error + byte list \<times> sample_session" where
  "sample_Sign s msg =
     (if length (pubNonces s) \<noteq> signers s then Inl ''combined nonce unavailable''
      else (let ps = take 32 (SecNonce (localNonces s))
            in Inr (ps, s\<lparr>sigs := sigs s @ [ps]\<rparr>)))"

definition sample_CombineSig ::
  "sample_session \<Rightarrow> byte list \<Rightarrow> lib_error + bool \<times> sample_session" where
  "sample_CombineSig s ps =
     (if length (sigs s) = signers s then Inl ''already have all sigs''
      else (let all = sigs s @ [ps]; complete = (length all = signers s)
            in Inr (complete,
                    s\<lparr>sigs := all,
                      finalSig := (if complete then Some (take 32 (PubNonce (localNonces s)) @ ps)
                                   else finalSig s)\<rparr>)))"

definition sample ::
  "(byte list, byte list, nat \<times> byte list, sample_session, byte list) library" where
  "sample =
     \<lparr>PrivKeyFromBytes = (\<lambda>b. (b, sample_pub b)),
      ParsePubKey = (\<lambda>b. if length b = 33 \<and> (hd b = 2 \<or> hd b = 3) then Inr b
                          else Inl ''malformed public key''),
      SerializeCompressed = (\<lambda>k. k),
      ScalarBaseMult = sample_pub,
      DecodePartialSig = (\<lambda>b. if length b < 32 then Inl ''unexpected EOF'' else Inr (take 32 b)),
      EncodePartialSig = (\<lambda>ps. ps),
      NewContextEarly = (\<lambda>sk n. if n = 0 then Inl ''signers not specified''
                                  else Inr (nat (sint n), sk)),
      NewContextKnown = (\<lambda>sk ks. Inr (length ks, sk)),
      EarlySessionNonce = (\<lambda>c. Inr (sample_nonces (snd c))),
      CombinedKey = (\<lambda>c. Inr (3 # replicate 32 (of_nat (fst c)))),
      NewSession = sample_NewSession,
      PublicNonce = (\<lambda>s. PubNonce (localNonces s)),
      RegisterPubNonce = sample_RegisterPubNonce,
      Sign = sample_Sign,
      CombineSig = sample_CombineSig,
      FinalSig = finalSig,
      GetID = (\<lambda>evt. hex_EncodeToString (replicate 32 0x11))\<rparr>"

text \<open>Three signers with the secret keys \<open>0a\<close>\<open>\<dots>\<close>, \<open>0b\<close>\<open>\<dots>\<close>, \<open>0c\<close>\<open>\<dots>\<close> and an event.\<close>

definition keyA :: "byte list" where "keyA = replicate 32 0x0a"
definition keyB :: "byte list" where "keyB = replicate 32 0x0b"
definition keyC :: "byte list" where "keyC = replicate 32 0x0c"

definition sample_event :: event where
  "sample_event = \<lparr>ID = [], PubKey = [], CreatedAt = 1700000000, Kind = 1, Tags = [[''t'', ''x'']],
           Content = ''hello'', Sig = []\<rparr>"

text \<open>
  The texts that the signers pass on: a secret key, a public key and a public nonce in hex,
  and a secret nonce in base64.
\<close>

definition hexkey :: "byte list \<Rightarrow> string" where
  "hexkey k = hex_EncodeToString k"

definition hexpub :: "byte list \<Rightarrow> string" where
  "hexpub k = hex_EncodeToString (sample_pub k)"

definition hexnonce :: "byte list \<Rightarrow> string" where
  "hexnonce k = hex_EncodeToString (PubNonce (sample_nonces k))"

definition secret :: "byte list \<Rightarrow> string" where
  "secret k = base64_EncodeToString (SecNonce (sample_nonces k))"

text \<open>
  A sample of what the publish\_note handler reads from outside: no secret key in the
  environment, no relays known, signing that records the key it was given, and publishing
  that succeeds on every relay.
\<close>

definition sample_system :: system where
  "sample_system =
     \<lparr>Getenv = (\<lambda>name. []),
      IsValidPublicKey = (\<lambda>pk. length pk = 64),
      Now = 1700000000,
      FetchInboxRelays = (\<lambda>pk n. []),
      FetchOutboxRelays = (\<lambda>pk n. []),
      EventSign = (\<lambda>evt sk. evt\<lparr>ID := ''id'', PubKey := ''pub:'' @ sk, Sig := ''sig:'' @ sk\<rparr>),
      PublishMany = (\<lambda>relays evt. map (\<lambda>url. \<lparr>RelayURL = url, Error = None\<rparr>) relays)\<rparr>"

definition sample_request :: request where
  "sample_request = (\<lambda>p. if p = ''content'' then Some (StringArg ''gm'') else None)"

text \<open>A nonce of 65 bytes, in hex.\<close>

definition short_nonce :: string where
  "short_nonce = hex_EncodeToString (replicate 65 0x02)"

section \<open>Facts about the encodings\<close>

lemma hextable_nth: "k < 16 \<Longrightarrow> fromHexChar (hextable ! k) = Some (of_nat k)"
proof -
  have "list_all (\<lambda>j. fromHexChar (hextable ! j) = Some (of_nat j)) [0..<16]"
    by code_simp
  moreover assume "k < 16"
  ultimately show ?thesis by (simp add: list_all_iff)
qed

lemma hextable_mem: "k < 16 \<Longrightarrow> hextable ! k \<in> set hextable"
  by (rule nth_mem) (simp add: hextable_def)

lemma hi_nibble: "unat (drop_bit 4 (v :: byte)) < 16"
proof -
  have "unat v < 256" using unsigned_less [of v] by simp
  then show ?thesis by (simp add: unat_drop_bit_eq drop_bit_eq_div unat_div)
qed

lemma lo_nibble_eq: "(v :: byte) AND 15 = take_bit 4 v"
  by (simp add: take_bit_eq_mask mask_eq_exp_minus_1)

lemma lo_nibble: "unat ((v :: byte) AND 15) < 16"
  by (simp add: lo_nibble_eq unsigned_take_bit_eq take_bit_eq_mod unat_mod)

lemma byte_nibbles: "push_bit 4 (drop_bit 4 v) OR (v AND 15) = (v :: byte)"
  apply (simp add: lo_nibble_eq)
  apply (rule bit_word_eqI)
  apply (auto simp add: bit_simps)
  done

lemma hex_roundtrip: "hex_DecodeString (hex_EncodeToString bs) = (bs, None)"
  by (induction bs) (simp_all add: hextable_nth hi_nibble lo_nibble byte_nibbles)

lemma hex_lowercase: "set (hex_EncodeToString bs) \<subseteq> set hextable"
  by (induction bs) (simp_all add: hextable_mem hi_nibble lo_nibble)

lemma decodeMap_encodeStd: "k < 64 \<Longrightarrow> decodeMap (encodeStd ! k) = Some k"
proof -
  have "list_all (\<lambda>j. decodeMap (encodeStd ! j) = Some j) [0..<64]"
    by code_simp
  moreover assume "k < 64"
  ultimately show ?thesis by (simp add: list_all_iff)
qed

lemma encodeStd_no_newline:
  "k < 64 \<Longrightarrow> encodeStd ! k \<noteq> CHR 0x0A \<and> encodeStd ! k \<noteq> CHR 0x0D"
proof -
  have "list_all (\<lambda>j. encodeStd ! j \<noteq> CHR 0x0A \<and> encodeStd ! j \<noteq> CHR 0x0D) [0..<64]"
    by code_simp
  moreover assume "k < 64"
  ultimately show ?thesis by (simp add: list_all_iff)
qed

lemma decodeMap_padChar: "decodeMap padChar = None"
  by (simp add: decodeMap_def padChar_def)

lemma byte_of_nat:
  assumes "n mod 256 = unat (x::byte)"
  shows "of_nat n = x"
proof -
  have "unat (of_nat n :: byte) = unat x"
    using assms by (simp add: unat_of_nat)
  then show ?thesis by (simp add: word_unat_eq_iff)
qed

lemma sextets:
  fixes v :: nat
  shows "(v div 262144 mod 64) * 262144 + (v div 4096 mod 64) * 4096 + (v div 64 mod 64) * 64 + v mod 64
         = v mod 16777216"
proof -
  have a: "v mod 4096 = 64 * (v div 64 mod 64) + v mod 64"
    using mod_mult2_eq [of v 64 64] by simp
  have b: "v mod 262144 = 4096 * (v div 4096 mod 64) + v mod 4096"
    using mod_mult2_eq [of v 4096 64] by simp
  have c: "v mod 16777216 = 262144 * (v div 262144 mod 64) + v mod 262144"
    using mod_mult2_eq [of v 262144 64] by simp
  show ?thesis using a b c by simp
qed

lemma unat_byte_less: "unat (x :: byte) < 256"
  using unsigned_less [of x] by simp

lemma mod_low: "c < 256 \<Longrightarrow> (k * 256 + c) mod 256 = (c::nat)"
  by simp

lemma sextet_less: "(v::nat) div k mod 64 < 64" "v mod 64 < 64"
  by simp_all

lemma quantum3:
  fixes a b c :: byte
  defines "v \<equiv> unat a * 65536 + unat b * 256 + unat c"
  defines "w \<equiv> (v div 262144 mod 64) * 262144 + (v div 4096 mod 64) * 4096 + (v div 64 mod 64) * 64 + v mod 64"
  shows "of_nat (w div 65536) = a" "of_nat (w div 256) = b" "of_nat w = c"
proof -
  have bounds: "unat a < 256" "unat b < 256" "unat c < 256"
    by (rule unat_byte_less)+
  then have "v < 16777216" by (simp add: v_def)
  then have w: "w = v" unfolding w_def sextets by simp
  have "v div 65536 = unat a" using bounds by (simp add: v_def)
  then show "of_nat (w div 65536) = a" by (simp add: w)
  have "v div 256 = unat a * 256 + unat b" using bounds by (simp add: v_def)
  then have "(v div 256) mod 256 = unat b" using bounds by simp
  then show "of_nat (w div 256) = b" unfolding w by (rule byte_of_nat)
  have "v mod 256 = unat c"
    using mod_low [of "unat c" "unat a * 256 + unat b"] bounds by (simp add: v_def ac_simps)
  then show "of_nat w = c" unfolding w by (rule byte_of_nat)
qed

lemma quantum2:
  fixes a b :: byte
  defines "v \<equiv> unat a * 65536 + unat b * 256"
  defines "w \<equiv> (v div 262144 mod 64) * 262144 + (v div 4096 mod 64) * 4096 + (v div 64 mod 64) * 64"
  shows "of_nat (w div 65536) = a" "of_nat (w div 256) = b"
proof -
  have "v mod 64 = 0" by (simp add: v_def)
  then have "w = (v div 262144 mod 64) * 262144 + (v div 4096 mod 64) * 4096 + (v div 64 mod 64) * 64 + v mod 64"
    by (simp add: w_def)
  then show "of_nat (w div 65536) = a" "of_nat (w div 256) = b"
    using quantum3 [of a b 0] by (simp_all add: v_def)
qed

lemma quantum1:
  fixes a :: byte
  defines "v \<equiv> unat a * 65536"
  defines "w \<equiv> (v div 262144 mod 64) * 262144 + (v div 4096 mod 64) * 4096"
  shows "of_nat (w div 65536) = a"
proof -
  have "v mod 64 = 0" "v div 64 mod 64 = 0" by (simp_all add: v_def)
  then have "w = (v div 262144 mod 64) * 262144 + (v div 4096 mod 64) * 4096 + (v div 64 mod 64) * 64 + v mod 64"
    by (simp add: w_def)
  then show ?thesis
    using quantum3(1) [of a 0 0] by (simp add: v_def)
qed

lemma decodeQuanta_roundtrip: "decodeQuanta (base64_EncodeToString bs) = Inr bs"
proof (induction bs rule: base64_EncodeToString.induct)
  case 1
  show ?case by simp
next
  case (2 a)
  show ?case
    using quantum1 [of a]
    by (simp add: Let_def decodeMap_encodeStd decodeMap_padChar)
next
  case (3 a b)
  show ?case
    using quantum2 [of a b]
    by (simp add: Let_def decodeMap_encodeStd decodeMap_padChar)
next
  case (4 a b c rest)
  then show ?case
    using quantum3 [of a b c]
    by (simp add: Let_def decodeMap_encodeStd)
qed

lemma encodeStd_mod_no_newline:
  "encodeStd ! (k mod 64) \<noteq> CHR 0x0A" "encodeStd ! (k mod 64) \<noteq> CHR 0x0D"
  using encodeStd_no_newline [of "k mod 64"] by simp_all

lemma base64_no_newline:
  "c \<in> set (base64_EncodeToString bs) \<Longrightarrow> c \<noteq> CHR 0x0A \<and> c \<noteq> CHR 0x0D"
  by (induction bs arbitrary: c rule: base64_EncodeToString.induct)
     (auto simp: Let_def padChar_def encodeStd_mod_no_newline)

lemma base64_roundtrip: "base64_DecodeString (base64_EncodeToString bs) = Inr bs"
proof -
  have "filter (\<lambda>c. c \<noteq> CHR 0x0A \<and> c \<noteq> CHR 0x0D) (base64_EncodeToString bs)
        = base64_EncodeToString bs"
    by (rule filter_True) (use base64_no_newline in blast)
  then show ?thesis
    by (simp add: base64_DecodeString_def decodeQuanta_roundtrip)
qed

lemma base64_nonempty: "bs \<noteq> [] \<Longrightarrow> base64_EncodeToString bs \<noteq> []"
  by (induction bs rule: base64_EncodeToString.induct) (simp_all add: Let_def)

section \<open>The caller's event\<close>

lemma signingPhase_frame:
  "signingPhase L evt n ks ns pss s out = (res, evt', out') \<Longrightarrow>
     evt' = evt\<lparr>Sig := Sig evt'\<rparr> \<and> (res \<noteq> Inr True \<longrightarrow> evt' = evt)"
  by (auto simp: signingPhase_def Let_def split: sum.splits prod.splits if_splits option.splits)

lemma keyGathering_frame:
  "keyGathering L evt n seck ks ns = (res, evt', out') \<Longrightarrow> evt' = evt \<and> res \<noteq> Inr True"
  by (auto simp: keyGathering_def split: sum.splits)

lemma allSignersKnown_frame:
  "allSignersKnown L evt n keys secNonce seck ks ns pss = (res, evt', out') \<Longrightarrow>
     evt' = evt\<lparr>Sig := Sig evt'\<rparr> \<and> (res \<noteq> Inr True \<longrightarrow> evt' = evt)"
  unfolding allSignersKnown_def Let_def
  by (auto split: sum.splits prod.splits if_splits dest: signingPhase_frame)

section \<open>Runs of the sample library\<close>

lemma length_keys [simp]: "length keyA = 32" "length keyB = 32" "length keyC = 32"
  by (simp_all add: keyA_def keyB_def keyC_def)

lemma keys_distinct [simp]:
  "keyA \<noteq> keyB" "keyA \<noteq> keyC" "keyB \<noteq> keyC" "keyB \<noteq> keyA" "keyC \<noteq> keyA" "keyC \<noteq> keyB"
  by (simp_all add: keyA_def keyB_def keyC_def)

lemma sample_pub_length [simp]: "length (sample_pub k) = 33"
  by (simp add: sample_pub_def go_copy_def zero_array_def)

lemma sample_pub_hd [simp]: "hd (sample_pub k) = 2"
  by (simp add: sample_pub_def)

lemma sample_nonces_length [simp]:
  "length (PubNonce (sample_nonces k)) = 66" "length (SecNonce (sample_nonces k)) = 97"
  by (simp_all add: sample_nonces_def go_copy_def zero_array_def)

lemma sample_pub_32: "length k = 32 \<Longrightarrow> sample_pub k = 2 # k"
  by (simp add: sample_pub_def go_copy_def zero_array_def)

lemma sample_nonces_32:
  "length k = 32 \<Longrightarrow>
     sample_nonces k = \<lparr>SecNonce = k @ k @ replicate 33 0, PubNonce = (2 # k) @ (2 # k)\<rparr>"
  by (simp add: sample_nonces_def sample_pub_32 go_copy_def zero_array_def)

lemma go_copy_zero_array [simp]: "length src = n \<Longrightarrow> go_copy (zero_array n) src = src"
  by (simp add: go_copy_def zero_array_def)

lemma sample_secNonceToPubNonce:
  "length k = 32 \<Longrightarrow>
     secNonceToPubNonce sample (SecNonce (sample_nonces k)) = PubNonce (sample_nonces k)"
  by (simp add: secNonceToPubNonce_def sample_nonces_32 sample_def sample_pub_32 go_copy_def
        zero_array_def Let_def)

lemma decode_hexkey [simp]: "hex_DecodeString (hexkey k) = (k, None)"
  by (simp add: hexkey_def hex_roundtrip)

lemma decode_hexpub [simp]: "hex_DecodeString (hexpub k) = (sample_pub k, None)"
  by (simp add: hexpub_def hex_roundtrip)

lemma decode_hexnonce [simp]: "hex_DecodeString (hexnonce k) = (PubNonce (sample_nonces k), None)"
  by (simp add: hexnonce_def hex_roundtrip)

lemma decode_secret [simp]: "base64_DecodeString (secret k) = Inr (SecNonce (sample_nonces k))"
  by (simp add: secret_def base64_roundtrip)

lemma secret_nonempty [simp]: "secret k \<noteq> []"
  by (simp add: secret_def sample_nonces_def base64_nonempty go_copy_def zero_array_def)

lemma sample_parseKeys_AB:
  "parseKeys sample pk [hexpub keyA, hexpub keyB] =
     Inr ([sample_pub keyA, sample_pub keyB], sample_pub keyA = pk \<or> sample_pub keyB = pk)"
  by (simp add: sample_def)

lemma sample_parseNonces_AB:
  "parseNonces [hexnonce keyA, hexnonce keyB] =
     Inr [PubNonce (sample_nonces keyA), PubNonce (sample_nonces keyB)]"
  by simp

lemma sample_third_preprocess:
  "preprocess sample (hexkey keyA) [hexpub keyA, hexpub keyB]
     [hexnonce keyA, hexnonce keyB] [hexkey keyB] =
   Inr (keyA, sample_pub keyA, [sample_pub keyA, sample_pub keyB],
        [PubNonce (sample_nonces keyA), PubNonce (sample_nonces keyB)], [keyB])"
  by (simp add: preprocess_def signerSet_def sample_parseKeys_AB sample_parseNonces_AB)
     (simp add: sample_def)

lemma sample_fields [simp]:
  "PrivKeyFromBytes sample = (\<lambda>b. (b, sample_pub b))"
  "ParsePubKey sample = (\<lambda>b. if length b = 33 \<and> (hd b = 2 \<or> hd b = 3) then Inr b
                          else Inl ''malformed public key'')"
  "SerializeCompressed sample = (\<lambda>k. k)"
  "ScalarBaseMult sample = sample_pub"
  "DecodePartialSig sample = (\<lambda>b. if length b < 32 then Inl ''unexpected EOF'' else Inr (take 32 b))"
  "EncodePartialSig sample = (\<lambda>ps. ps)"
  "NewContextEarly sample = (\<lambda>sk n. if n = 0 then Inl ''signers not specified''
                                  else Inr (nat (sint n), sk))"
  "NewContextKnown sample = (\<lambda>sk ks. Inr (length ks, sk))"
  "EarlySessionNonce sample = (\<lambda>c. Inr (sample_nonces (snd c)))"
  "CombinedKey sample = (\<lambda>c. Inr (3 # replicate 32 (of_nat (fst c))))"
  "NewSession sample = sample_NewSession"
  "PublicNonce sample = (\<lambda>s. PubNonce (localNonces s))"
  "RegisterPubNonce sample = sample_RegisterPubNonce"
  "Sign sample = sample_Sign"
  "CombineSig sample = sample_CombineSig"
  "FinalSig sample = finalSig"
  "GetID sample = (\<lambda>evt. hex_EncodeToString (replicate 32 0x11))"
  by (simp_all add: sample_def)

lemma sample_nonces_distinct [simp]:
  "PubNonce (sample_nonces keyA) \<noteq> PubNonce (sample_nonces keyB)"
  "PubNonce (sample_nonces keyB) \<noteq> PubNonce (sample_nonces keyA)"
  "PubNonce (sample_nonces keyA) \<noteq> PubNonce (sample_nonces keyC)"
  "PubNonce (sample_nonces keyC) \<noteq> PubNonce (sample_nonces keyA)"
  by (simp_all add: sample_nonces_32)

lemma sample_third:
  "performMusig sample (hexkey keyA) sample_event 2 [hexpub keyA, hexpub keyB]
     [hexnonce keyA, hexnonce keyB] (secret keyA) [hexkey keyB] =
   (Inr True,
    sample_event\<lparr>Sig := hex_EncodeToString (take 32 (PubNonce (sample_nonces keyA)) @ keyB)\<rparr>,
    [combinedKeyLine sample (3 # replicate 32 2)])"
  apply (simp add: performMusig_def sample_third_preprocess allSignersKnown_def)
  apply (simp add: openSession_def sample_secNonceToPubNonce sample_NewSession_def)
  apply (simp add: sample_RegisterPubNonce_def signingPhase_def Let_def sample_Sign_def
     sample_CombineSig_def)
  done

lemma sample_first_preprocess:
  "preprocess sample (hexkey keyA) [] [] [] = Inr (keyA, sample_pub keyA, [sample_pub keyA], [], [])"
  by (simp add: preprocess_def signerSet_def)

lemma sample_first:
  "performMusig sample (hexkey keyA) sample_event 2 [] [] [] [] =
     (Inr False, sample_event,
      [secretNotice, secret keyA @ [newline, newline],
       printPublicCommandForNextPeer sample sample_event 2 [sample_pub keyA]
         [PubNonce (sample_nonces keyA)] [] False])"
  by (simp add: performMusig_def sample_first_preprocess keyGathering_def secret_def)

lemma sample_pub_inject [simp]:
  "length j = 32 \<Longrightarrow> length k = 32 \<Longrightarrow> sample_pub j = sample_pub k \<longleftrightarrow> j = k"
  by (simp add: sample_pub_32)

lemma sample_second_preprocess:
  "preprocess sample (hexkey keyB) [hexpub keyA] [hexnonce keyA] [] =
     Inr (keyB, sample_pub keyB, [sample_pub keyA, sample_pub keyB],
          [PubNonce (sample_nonces keyA)], [])"
  by (simp add: preprocess_def signerSet_def)

lemma sample_second:
  "performMusig sample (hexkey keyB) sample_event 2 [hexpub keyA] [hexnonce keyA] [] [] =
     (Inr False, sample_event,
      [combinedKeyLine sample (3 # replicate 32 2),
       printPublicCommandForNextPeer sample sample_event 2 [sample_pub keyA, sample_pub keyB]
         [PubNonce (sample_nonces keyA), PubNonce (sample_nonces keyB)] [keyB] True])"
  apply (simp add: performMusig_def sample_second_preprocess allSignersKnown_def)
  apply (simp add: openSession_def sample_NewSession_def)
  apply (simp add: sample_RegisterPubNonce_def signingPhase_def Let_def sample_Sign_def
      sample_nonces_32)
  done

lemma sample_missing:
  "performMusig sample (hexkey keyA) sample_event 2 [hexpub keyA, hexpub keyB]
     [hexnonce keyA, hexnonce keyB] [] [hexkey keyB] =
   (Inl MissingNonceSecret, sample_event, [combinedKeyLine sample (3 # replicate 32 2)])"
  by (simp add: performMusig_def sample_third_preprocess allSignersKnown_def openSession_def)

section \<open>Paths that do not sign\<close>

lemma parseKeys_Sign_update [simp]:
  "parseKeys (L\<lparr>Sign := f\<rparr>) pubk keys = parseKeys L pubk keys"
  by (induction keys) (simp_all split: prod.splits option.splits sum.splits)

lemma parsePartialSigs_Sign_update [simp]:
  "parsePartialSigs (L\<lparr>Sign := f\<rparr>) hexs = parsePartialSigs L hexs"
  by (induction hexs) (simp_all split: prod.splits option.splits sum.splits)

lemma signerSet_Sign_update [simp]:
  "signerSet (L\<lparr>Sign := f\<rparr>) pubk keys = signerSet L pubk keys"
  by (simp add: signerSet_def split: prod.splits sum.splits)

lemma preprocess_Sign_update [simp]:
  "preprocess (L\<lparr>Sign := f\<rparr>) sec keys nonces partialSigs = preprocess L sec keys nonces partialSigs"
  by (simp add: preprocess_def split: prod.splits option.splits sum.splits)

lemma sample_Sign_update: "sample\<lparr>Sign := sample_Sign\<rparr> = sample"
  by (simp add: sample_def)

lemma combinedKeyLine_Sign_update [simp]:
  "combinedKeyLine (L\<lparr>Sign := f\<rparr>) comb = combinedKeyLine L comb"
  by (simp add: combinedKeyLine_def)

lemma performMusig_all_known:
  assumes "preprocess L sec keys nonces partialSigs =
             Inr (seck, pubk, knownSigners, knownNonces, knownPartialSigs)"
    and "\<not> int (length knownSigners) < sint numSigners"
  shows "performMusig L sec evt numSigners keys nonces secNonce partialSigs =
           allSignersKnown L evt numSigners keys secNonce seck knownSigners knownNonces
             knownPartialSigs"
  using assms by (simp add: performMusig_def)

lemma parseNonces_rejects:
  "h \<in> set nonces \<Longrightarrow> hex_DecodeString h = (bs, None) \<Longrightarrow> length bs \<noteq> 66 \<Longrightarrow>
     \<exists>e. parseNonces nonces = Inl e"
proof (induction nonces)
  case Nil
  then show ?case by simp
next
  case (Cons x rest)
  then show ?case
    by (cases "x = h") (auto split: prod.splits option.splits sum.splits)
qed

lemma parseNonces_first_bad:
  "parseNonces before = Inr ns \<Longrightarrow> hex_DecodeString h = (bs, None) \<Longrightarrow> length bs \<noteq> 66 \<Longrightarrow>
     parseNonces (before @ h # post) = Inl (NonceNot66Bytes h)"
proof (induction before arbitrary: ns)
  case Nil
  then show ?case by simp
next
  case (Cons x rest)
  then show ?case
    by (auto split: prod.splits option.splits sum.splits if_splits)
qed

lemma preprocess_nonces_rejected:
  "parseNonces nonces = Inl e \<Longrightarrow> \<exists>e'. preprocess L sec keys nonces partialSigs = Inl e'"
  by (auto simp: preprocess_def split: prod.splits option.splits sum.splits)

lemma preprocess_nonces_error:
  "hex_DecodeString sec = (secb, None) \<Longrightarrow>
   signerSet L (snd (PrivKeyFromBytes L secb)) keys = Inr ks \<Longrightarrow>
   parseNonces nonces = Inl e \<Longrightarrow>
     preprocess L sec keys nonces partialSigs = Inl e"
  by (auto simp: preprocess_def split: prod.splits option.splits sum.splits)

lemma performMusig_preprocess_error:
  "preprocess L sec keys nonces partialSigs = Inl e \<Longrightarrow>
     performMusig L sec evt numSigners keys nonces secNonce partialSigs = (Inl e, evt, [])"
  by (simp add: performMusig_def)

lemma parseKeys_shape:
  "parseKeys L pubk keys = Inr (ks, includesUs) \<Longrightarrow>
     length ks = length keys \<and> includesUs = (pubk \<in> set ks)"
proof (induction keys arbitrary: ks includesUs)
  case Nil
  then show ?case by simp
next
  case (Cons hexpub rest)
  then show ?case
    by (auto split: prod.splits option.splits sum.splits)
qed

section \<open>What an invocation that fails has written\<close>




section \<open>The claims\<close>

text \<open>
  Claim C2. When the input decodes and the signer set, with the local key inserted, has
  fewer than \<open>N\<close> keys, the invocation gathers keys: it makes the context for \<open>N\<close>
  signers with early nonce generation and takes the nonce generated under it. It writes to
  the standard error stream the notice, the secret nonce in base64, and the resume command;
  the resume command is built from the known signers, the known public nonces followed by
  the public half of the new nonce, no partial signature and no placeholder, and the secret
  nonce is no argument of it. It returns \<open>signed = false\<close> with the event as it was. When
  the library refuses the context or the nonce, the invocation ends in that error, with
  nothing written and the event as it was.
\<close>

theorem key_gathering:
  assumes "preprocess L sec keys nonces partialSigs =
             Inr (seck, pubk, knownSigners, knownNonces, knownPartialSigs)"
    and "int (length knownSigners) < sint numSigners"
  shows "fst (performMusig L sec evt numSigners keys nonces secNonce partialSigs) \<noteq> Inr True \<and>
         fst (snd (performMusig L sec evt numSigners keys nonces secNonce partialSigs)) = evt \<and>
         performMusig L sec evt numSigners keys nonces secNonce partialSigs =
           (case NewContextEarly L seck numSigners of
              Inl err \<Rightarrow> (Inl (ContextUnknownSigners numSigners err), evt, [])
            | Inr mctx \<Rightarrow>
                (case EarlySessionNonce L mctx of
                   Inl err \<Rightarrow> (Inl (LibError err), evt, [])
                 | Inr nonce \<Rightarrow>
                     (Inr False, evt,
                      [secretNotice,
                       base64_EncodeToString (SecNonce nonce) @ [newline, newline],
                       printPublicCommandForNextPeer L evt numSigners knownSigners
                         (knownNonces @ [PubNonce nonce]) [] False])))"
proof -
  have run: "performMusig L sec evt numSigners keys nonces secNonce partialSigs =
               keyGathering L evt numSigners seck knownSigners knownNonces"
    using assms by (simp add: performMusig_def)
  show ?thesis
    unfolding run by (simp add: keyGathering_def split: sum.splits)
qed

theorem key_gathering_witness:
  "preprocess sample (hexkey keyA) [] [] [] = Inr (keyA, sample_pub keyA, [sample_pub keyA], [], [])
   \<and> int (length [sample_pub keyA]) < sint (2 :: go_int)
   \<and> performMusig sample (hexkey keyA) sample_event 2 [] [] [] [] =
       (Inr False, sample_event,
        [secretNotice, secret keyA @ [newline, newline],
         printPublicCommandForNextPeer sample sample_event 2 [sample_pub keyA]
           [PubNonce (sample_nonces keyA)] [] False])"
proof -
  have few: "int (length [sample_pub keyA]) < sint (2 :: go_int)" by simp
  from key_gathering [OF sample_first_preprocess few, of sample_event "[]"]
  have "performMusig sample (hexkey keyA) sample_event 2 [] [] [] [] =
       (Inr False, sample_event,
        [secretNotice, secret keyA @ [newline, newline],
         printPublicCommandForNextPeer sample sample_event 2 [sample_pub keyA]
           [PubNonce (sample_nonces keyA)] [] False])"
    by (simp add: secret_def)
  with sample_first_preprocess few show ?thesis by simp
qed

text \<open>
  Claim C3. Let the input decode, the signer set have at least \<open>N\<close> keys, and the
  context and the combined key be made. When the number of supplied keys is \<open>N - 1\<close>
  (the subtraction of Go's \<^verbatim>\<open>int\<close>), the session is opened with no pre-generated nonce,
  its public nonce is added to the known ones, and the secret-nonce argument is not read:
  the invocation does the same with any value of it as with none. In every other case an
  empty secret-nonce argument ends the invocation in the missing-secret error, after the
  combined key was printed and with the event as it was; this happens whatever the
  library's signing function is, so nothing was signed.
\<close>

theorem nonce_source:
  assumes "preprocess L sec keys nonces partialSigs =
             Inr (seck, pubk, knownSigners, knownNonces, knownPartialSigs)"
    and "\<not> int (length knownSigners) < sint numSigners"
    and "NewContextKnown L seck knownSigners = Inr mctx"
    and "CombinedKey L mctx = Inr comb"
  shows "(int (length keys) = sint (numSigners - 1) \<longrightarrow>
            openSession L mctx numSigners keys knownNonces secNonce =
              (case NewSession L mctx None of
                 Inl err \<Rightarrow> Inl (SessionLastPeerFailed err)
               | Inr session \<Rightarrow> Inr (session, knownNonces @ [PublicNonce L session])) \<and>
            performMusig L sec evt numSigners keys nonces secNonce partialSigs =
              performMusig L sec evt numSigners keys nonces [] partialSigs) \<and>
         (int (length keys) \<noteq> sint (numSigners - 1) \<longrightarrow> secNonce = [] \<longrightarrow>
            (\<forall>f. performMusig (L\<lparr>Sign := f\<rparr>) sec evt numSigners keys nonces secNonce partialSigs =
                   (Inl MissingNonceSecret, evt, [combinedKeyLine L comb])))"
proof (intro conjI impI allI)
  assume last: "int (length keys) = sint (numSigners - 1)"
  then show "openSession L mctx numSigners keys knownNonces secNonce =
      (case NewSession L mctx None of
         Inl err \<Rightarrow> Inl (SessionLastPeerFailed err)
       | Inr session \<Rightarrow> Inr (session, knownNonces @ [PublicNonce L session]))"
    by (simp add: openSession_def)
  from last have "openSession L mctx numSigners keys knownNonces secNonce =
      openSession L mctx numSigners keys knownNonces []"
    by (simp add: openSession_def)
  then show "performMusig L sec evt numSigners keys nonces secNonce partialSigs =
      performMusig L sec evt numSigners keys nonces [] partialSigs"
    using assms by (simp add: performMusig_all_known allSignersKnown_def)
next
  fix f
  assume "int (length keys) \<noteq> sint (numSigners - 1)" and "secNonce = []"
  then have "openSession (L\<lparr>Sign := f\<rparr>) mctx numSigners keys knownNonces secNonce =
      Inl MissingNonceSecret"
    by (simp add: openSession_def)
  moreover have "preprocess (L\<lparr>Sign := f\<rparr>) sec keys nonces partialSigs =
      Inr (seck, pubk, knownSigners, knownNonces, knownPartialSigs)"
    using assms(1) by simp
  ultimately show "performMusig (L\<lparr>Sign := f\<rparr>) sec evt numSigners keys nonces secNonce partialSigs =
      (Inl MissingNonceSecret, evt, [combinedKeyLine L comb])"
    using assms(2-4) by (simp add: performMusig_all_known allSignersKnown_def)
qed

theorem nonce_source_witness:
  "int (length [hexpub keyA]) = sint ((2 :: go_int) - 1)
   \<and> performMusig sample (hexkey keyB) sample_event 2 [hexpub keyA] [hexnonce keyA] (secret keyC) [] =
     (Inr False, sample_event,
      [combinedKeyLine sample (3 # replicate 32 2),
       printPublicCommandForNextPeer sample sample_event 2 [sample_pub keyA, sample_pub keyB]
         [PubNonce (sample_nonces keyA), PubNonce (sample_nonces keyB)] [keyB] True])
   \<and> int (length [hexpub keyA, hexpub keyB]) \<noteq> sint ((2 :: go_int) - 1)
   \<and> performMusig sample (hexkey keyA) sample_event 2 [hexpub keyA, hexpub keyB]
       [hexnonce keyA, hexnonce keyB] [] [hexkey keyB] =
     (Inl MissingNonceSecret, sample_event, [combinedKeyLine sample (3 # replicate 32 2)])"
proof -
  have all2: "\<not> int (length [sample_pub keyA, sample_pub keyB]) < sint (2 :: go_int)" by simp
  have ctxB: "NewContextKnown sample keyB [sample_pub keyA, sample_pub keyB] = Inr (2, keyB)"
    and ctxA: "NewContextKnown sample keyA [sample_pub keyA, sample_pub keyB] = Inr (2, keyA)"
    by simp_all
  have combB: "CombinedKey sample (2, keyB) = Inr (3 # replicate 32 2)"
    and combA: "CombinedKey sample (2, keyA) = Inr (3 # replicate 32 2)"
    by simp_all
  have last: "int (length [hexpub keyA]) = sint ((2 :: go_int) - 1)" by simp
  have later: "int (length [hexpub keyA, hexpub keyB]) \<noteq> sint ((2 :: go_int) - 1)" by simp
  from nonce_source [OF sample_second_preprocess all2 ctxB combB, of "secret keyC" sample_event] last
  have "performMusig sample (hexkey keyB) sample_event 2 [hexpub keyA] [hexnonce keyA] (secret keyC) [] =
        performMusig sample (hexkey keyB) sample_event 2 [hexpub keyA] [hexnonce keyA] [] []"
    by blast
  then have second: "performMusig sample (hexkey keyB) sample_event 2 [hexpub keyA] [hexnonce keyA]
      (secret keyC) [] =
     (Inr False, sample_event,
      [combinedKeyLine sample (3 # replicate 32 2),
       printPublicCommandForNextPeer sample sample_event 2 [sample_pub keyA, sample_pub keyB]
         [PubNonce (sample_nonces keyA), PubNonce (sample_nonces keyB)] [keyB] True])"
    by (simp add: sample_second)
  from nonce_source [OF sample_third_preprocess all2 ctxA combA, of "[]" sample_event] later
  have "performMusig (sample\<lparr>Sign := Sign sample\<rparr>) (hexkey keyA) sample_event 2
          [hexpub keyA, hexpub keyB] [hexnonce keyA, hexnonce keyB] [] [hexkey keyB] =
        (Inl MissingNonceSecret, sample_event, [combinedKeyLine sample (3 # replicate 32 2)])"
    by blast
  then have third: "performMusig sample (hexkey keyA) sample_event 2
          [hexpub keyA, hexpub keyB] [hexnonce keyA, hexnonce keyB] [] [hexkey keyB] =
        (Inl MissingNonceSecret, sample_event, [combinedKeyLine sample (3 # replicate 32 2)])"
    by (simp add: sample_Sign_update)
  from last second later third show ?thesis by simp
qed

text \<open>
  Claim C4. Whatever the input and whatever the outcome, the event that \<open>performMusig\<close>
  leaves behind differs from the caller's event in the signature field at most, and it is
  the caller's event unchanged unless the function returns \<open>signed = true\<close>: on every
  error path and on every path that prints a resume command the whole event is untouched.
\<close>

theorem performMusig_writes_only_Sig:
  assumes "performMusig L sec evt numSigners keys nonces secNonce partialSigs = (res, evt', out)"
  shows "evt' = evt\<lparr>Sig := Sig evt'\<rparr> \<and> (res \<noteq> Inr True \<longrightarrow> evt' = evt)"
  using assms unfolding performMusig_def
  by (auto split: sum.splits prod.splits if_splits
           dest: keyGathering_frame allSignersKnown_frame)

theorem performMusig_writes_only_Sig_witness:
  "performMusig sample (hexkey keyA) sample_event 2 [hexpub keyA, hexpub keyB]
     [hexnonce keyA, hexnonce keyB] (secret keyA) [hexkey keyB] =
   (Inr True,
    sample_event\<lparr>Sig := hex_EncodeToString (take 32 (PubNonce (sample_nonces keyA)) @ keyB)\<rparr>,
    [combinedKeyLine sample (3 # replicate 32 2)])
   \<and> ID (sample_event\<lparr>Sig := hex_EncodeToString (take 32 (PubNonce (sample_nonces keyA)) @ keyB)\<rparr>)
       = ID sample_event
   \<and> performMusig sample (hexkey keyA) sample_event 2 [hexpub keyA, hexpub keyB]
     [hexnonce keyA, hexnonce keyB] [] [hexkey keyB] =
   (Inl MissingNonceSecret, sample_event, [combinedKeyLine sample (3 # replicate 32 2)])
   \<and> (Inl MissingNonceSecret :: error + bool) \<noteq> Inr True"
proof -
  note signed = performMusig_writes_only_Sig [OF sample_third]
  note failed = performMusig_writes_only_Sig [OF sample_missing]
  from signed have "ID (sample_event\<lparr>Sig := hex_EncodeToString
      (take 32 (PubNonce (sample_nonces keyA)) @ keyB)\<rparr>) = ID sample_event"
    by simp
  with failed sample_third sample_missing show ?thesis by simp
qed

text \<open>
  Claim C5. When one of the supplied public nonces is hex for a byte string that is not 66
  bytes long, the invocation ends in an error of the preprocessing of lines 28 to 81: no
  context is made, nothing is written to the standard error stream and the event is
  untouched. The error is the length error that names this nonce whenever the secret key
  and the public keys decode and the nonces before it are well formed (a malformed field
  that is read earlier is reported in its place).
\<close>

theorem short_nonce_rejected:
  assumes "h \<in> set nonces" and "hex_DecodeString h = (bs, None)" and "length bs \<noteq> 66"
  shows "\<exists>e. preprocess L sec keys nonces partialSigs = Inl e \<and>
             performMusig L sec evt numSigners keys nonces secNonce partialSigs = (Inl e, evt, []) \<and>
             (\<forall>secb ks before ns post.
                hex_DecodeString sec = (secb, None) \<longrightarrow>
                signerSet L (snd (PrivKeyFromBytes L secb)) keys = Inr ks \<longrightarrow>
                nonces = before @ h # post \<longrightarrow>
                parseNonces before = Inr ns \<longrightarrow>
                e = NonceNot66Bytes h)"
proof -
  from parseNonces_rejects [OF assms] obtain e0 where "parseNonces nonces = Inl e0" ..
  from preprocess_nonces_rejected [OF this]
  obtain e where pre: "preprocess L sec keys nonces partialSigs = Inl e" ..
  have "e = NonceNot66Bytes h"
    if "hex_DecodeString sec = (secb, None)"
      and "signerSet L (snd (PrivKeyFromBytes L secb)) keys = Inr ks"
      and "nonces = before @ h # post"
      and "parseNonces before = Inr ns"
    for secb ks before ns post
  proof -
    have "parseNonces nonces = Inl (NonceNot66Bytes h)"
      unfolding that(3) using that(4) assms(2,3) by (rule parseNonces_first_bad)
    from preprocess_nonces_error [OF that(1,2) this] pre show ?thesis by simp
  qed
  with pre performMusig_preprocess_error [OF pre] show ?thesis by blast
qed


theorem short_nonce_rejected_witness:
  "short_nonce \<in> set [hexnonce keyA, short_nonce]
   \<and> hex_DecodeString short_nonce = (replicate 65 0x02, None)
   \<and> length (replicate 65 (0x02 :: byte)) \<noteq> 66
   \<and> performMusig sample (hexkey keyB) sample_event 2 [hexpub keyA] [hexnonce keyA, short_nonce] [] []
       = (Inl (NonceNot66Bytes short_nonce), sample_event, [])"
proof -
  have dec: "hex_DecodeString short_nonce = (replicate 65 0x02, None)"
    by (simp add: short_nonce_def hex_roundtrip)
  have mem: "short_nonce \<in> set [hexnonce keyA, short_nonce]" by simp
  have len: "length (replicate 65 (0x02 :: byte)) \<noteq> 66" by simp
  have keys: "signerSet sample (snd (PrivKeyFromBytes sample keyB)) [hexpub keyA]
                = Inr [sample_pub keyA, sample_pub keyB]"
    by (simp add: signerSet_def)
  have before: "parseNonces [hexnonce keyA] = Inr [PubNonce (sample_nonces keyA)]" by simp
  from short_nonce_rejected [OF mem dec len, of sample "hexkey keyB" "[hexpub keyA]" "[]"
      sample_event 2 "[]"]
  obtain e where run: "performMusig sample (hexkey keyB) sample_event 2 [hexpub keyA]
        [hexnonce keyA, short_nonce] [] [] = (Inl e, sample_event, [])"
    and first: "\<And>secb ks before ns post.
        hex_DecodeString (hexkey keyB) = (secb, None) \<Longrightarrow>
        signerSet sample (snd (PrivKeyFromBytes sample secb)) [hexpub keyA] = Inr ks \<Longrightarrow>
        [hexnonce keyA, short_nonce] = before @ short_nonce # post \<Longrightarrow>
        parseNonces before = Inr ns \<Longrightarrow> e = NonceNot66Bytes short_nonce"
    by blast
  have "e = NonceNot66Bytes short_nonce"
    by (rule first [OF decode_hexkey keys _ before]) simp
  with run dec mem len show ?thesis by simp
qed

text \<open>
  Claim C6, as amended. The signer set is the supplied keys, parsed, in the order given,
  with the local public key appended exactly when none of them is equal to it. So the
  local key is always in the set, it occurs once when the supplied keys do not hold it and
  as often as they hold it otherwise, and the set has the supplied keys' length or one
  more: it has at most \<open>N\<close> entries whenever fewer than \<open>N\<close> keys are supplied.
\<close>

theorem signerSet_shape:
  assumes "signerSet L pubk keys = Inr knownSigners"
  shows "\<exists>ks. parseKeys L pubk keys = Inr (ks, pubk \<in> set ks) \<and>
              length ks = length keys \<and>
              knownSigners = (if pubk \<in> set ks then ks else ks @ [pubk]) \<and>
              pubk \<in> set knownSigners \<and>
              count_list knownSigners pubk = max 1 (count_list ks pubk) \<and>
              (int (length keys) < sint numSigners \<longrightarrow> int (length knownSigners) \<le> sint numSigners)"
proof -
  from assms obtain ks includesUs where pk: "parseKeys L pubk keys = Inr (ks, includesUs)"
    and known: "knownSigners = (if \<not> includesUs then ks @ [pubk] else ks)"
    by (auto simp: signerSet_def split: sum.splits prod.splits)
  from parseKeys_shape [OF pk] have len: "length ks = length keys"
    and inc: "includesUs = (pubk \<in> set ks)" by simp_all
  have cnt: "count_list knownSigners pubk = max 1 (count_list ks pubk)"
  proof (cases "pubk \<in> set ks")
    case True
    then have "count_list ks pubk \<noteq> 0" by (simp add: count_list_0_iff)
    then have "0 < count_list ks pubk" by simp
    with True show ?thesis by (simp add: known inc)
  next
    case False
    then have "count_list ks pubk = 0" by (simp add: count_list_0_iff)
    with False show ?thesis by (simp add: known inc)
  qed
  show ?thesis
    using pk len cnt by (intro exI [of _ ks]) (auto simp: known inc)
qed

theorem signerSet_shape_witness:
  "signerSet sample (sample_pub keyB) [hexpub keyA] = Inr [sample_pub keyA, sample_pub keyB]
   \<and> parseKeys sample (sample_pub keyB) [hexpub keyA] = Inr ([sample_pub keyA], False)
   \<and> count_list [sample_pub keyA, sample_pub keyB] (sample_pub keyB) = 1
   \<and> int (length [hexpub keyA]) < sint (2 :: go_int)
   \<and> int (length [sample_pub keyA, sample_pub keyB]) \<le> sint (2 :: go_int)"
proof -
  have run: "signerSet sample (sample_pub keyB) [hexpub keyA] = Inr [sample_pub keyA, sample_pub keyB]"
    by (simp add: signerSet_def)
  have few: "int (length [hexpub keyA]) < sint (2 :: go_int)" by simp
  from signerSet_shape [OF run, where numSigners = 2] few
  have "count_list [sample_pub keyA, sample_pub keyB] (sample_pub keyB) = 1
        \<and> int (length [sample_pub keyA, sample_pub keyB]) \<le> sint (2 :: go_int)"
    by (auto split: if_splits)
  with run few show ?thesis by simp
qed

text \<open>
  The claim as written fails. With \<open>N = 2\<close> and the keys of two other signers supplied,
  the set has three entries; and supplied keys that hold the local key twice give a set in
  which it occurs twice.
\<close>

theorem signerSet_counterexample:
  "signerSet sample (sample_pub keyA) [hexpub keyB, hexpub keyC] =
     Inr [sample_pub keyB, sample_pub keyC, sample_pub keyA]
   \<and> sint (2 :: go_int) < int (length [sample_pub keyB, sample_pub keyC, sample_pub keyA])
   \<and> signerSet sample (sample_pub keyA) [hexpub keyA, hexpub keyA] =
     Inr [sample_pub keyA, sample_pub keyA]
   \<and> count_list [sample_pub keyA, sample_pub keyA] (sample_pub keyA) = 2"
  by (simp add: signerSet_def)



end
